theory Spec2Isabelle
  imports Main "HOL-Library.Word"
begin

section \<open>Strings\<close>

text \<open>
  A JavaScript string is a sequence of UTF-16 code units. String literals of the source
  are ASCII; \<open>lit\<close> turns an ASCII literal into its code units.
\<close>

type_synonym jsstring = "16 word list"

definition lit :: "string \<Rightarrow> jsstring" where
  "lit s = map (\<lambda>c. of_nat (of_char c)) s"

text \<open>
  \<open>String.prototype.trim\<close> removes leading and trailing code units that are WhiteSpace
  or LineTerminator in ECMAScript: TAB, LF, VT, FF, CR, SPACE, NBSP, U+1680,
  U+2000 to U+200A, U+2028, U+2029, U+202F, U+205F, U+3000 and U+FEFF.
\<close>

definition isWhiteSpace :: "16 word \<Rightarrow> bool" where
  "isWhiteSpace c =
     (c = 0x0009 \<or> c = 0x000A \<or> c = 0x000B \<or> c = 0x000C \<or> c = 0x000D \<or> c = 0x0020
      \<or> c = 0x00A0 \<or> c = 0x1680 \<or> (0x2000 \<le> c \<and> c \<le> 0x200A) \<or> c = 0x2028
      \<or> c = 0x2029 \<or> c = 0x202F \<or> c = 0x205F \<or> c = 0x3000 \<or> c = 0xFEFF)"

definition trim :: "jsstring \<Rightarrow> jsstring" where
  "trim s = rev (dropWhile isWhiteSpace (rev (dropWhile isWhiteSpace s)))"

text \<open>
  \<open>startsWith\<close> and \<open>endsWith\<close> of \<open>String.prototype\<close>, at the default position.
\<close>

definition startsWith :: "'a list \<Rightarrow> 'a list \<Rightarrow> bool" where
  "startsWith s p = (take (length p) s = p)"

definition endsWith :: "'a list \<Rightarrow> 'a list \<Rightarrow> bool" where
  "endsWith s p = (length p \<le> length s \<and> drop (length s - length p) s = p)"

text \<open>
  To speak about the text of a document: \<open>str_includes s p\<close> says that \<open>p\<close> occurs in
  \<open>s\<close> as a contiguous run (as \<open>String.prototype.includes\<close> does), and
  \<open>occurrences s p\<close> counts the positions of \<open>s\<close> at which \<open>p\<close> occurs.
\<close>

fun str_includes :: "'a list \<Rightarrow> 'a list \<Rightarrow> bool" where
  "str_includes [] p = (p = [])"
| "str_includes (c # s) p = (if startsWith (c # s) p then True else str_includes s p)"

fun occurrences :: "'a list \<Rightarrow> 'a list \<Rightarrow> nat" where
  "occurrences [] p = (if p = [] then 1 else 0)"
| "occurrences (c # s) p = (if startsWith (c # s) p then 1 else 0) + occurrences s p"

section \<open>Values and errors\<close>

text \<open>
  The values \<open>JSON.parse\<close> can return, and \<open>undefined\<close>, which reading an absent
  property gives. A number is held by the 64 bits of its IEEE 754 double; an object by its
  own properties in insertion order.
\<close>

datatype jsval =
    Undefined
  | Null
  | Bool bool
  | Num "64 word"
  | Str jsstring
  | Arr "jsval list"
  | Obj "(jsstring \<times> jsval) list"

text \<open>A thrown \<open>Error\<close> object, held by its \<open>message\<close>.\<close>

datatype js_error = Error (message: jsstring)

text \<open>
  Reading one of the properties \<open>language\<close>, \<open>improvedCode\<close>, \<open>explanation\<close>,
  \<open>dependencies\<close> (names that no built-in prototype defines): a TypeError on
  \<open>undefined\<close> and \<open>null\<close>, the own property of an object, \<open>undefined\<close> otherwise.
\<close>

fun get_prop :: "jsval \<Rightarrow> jsstring \<Rightarrow> js_error + jsval" where
  "get_prop Undefined k = Inl (Error (lit ''Cannot read properties of undefined''))"
| "get_prop Null k = Inl (Error (lit ''Cannot read properties of null''))"
| "get_prop (Obj kvs) k = Inr (case map_of kvs k of None \<Rightarrow> Undefined | Some v \<Rightarrow> v)"
| "get_prop v k = Inr Undefined"

text \<open>\<open>ToBoolean\<close>: what \<open>if (v)\<close> and \<open>!v\<close> test.\<close>

fun ToBoolean :: "jsval \<Rightarrow> bool" where
  "ToBoolean Undefined = False"
| "ToBoolean Null = False"
| "ToBoolean (Bool b) = b"
| "ToBoolean (Num w) =
     (if and w 0x7FFFFFFFFFFFFFFF = 0 then False
      else if and w 0x7FF0000000000000 = 0x7FF0000000000000 \<and> and w 0x000FFFFFFFFFFFFF \<noteq> 0
      then False else True)"
| "ToBoolean (Str s) = (s \<noteq> [])"
| "ToBoolean (Arr vs) = True"
| "ToBoolean (Obj kvs) = True"

section \<open>The completion client (services/geminiService)\<close>

text \<open>The template literal \<open>fullPrompt\<close>, line by line.\<close>

definition fullPrompt :: "jsstring \<Rightarrow> jsstring \<Rightarrow> jsstring \<Rightarrow> jsstring" where
  \<open>fullPrompt user_code refactor_prompt style_prompt =
     lit (''\<newline>'' @
          ''      The user has provided a frontend component. Your task is to identify its language, refactor it based on their requests, and follow all rules in the system instruction.\<newline>'' @
          ''\<newline>'' @
          ''      **User's Original Code:**\<newline>'' @
          ''      ```\<newline>'' @
          ''      '') @
     user_code @
     lit (''\<newline>'' @
          ''      ```\<newline>'' @
          ''\<newline>'' @
          ''      ---\<newline>'' @
          ''\<newline>'' @
          ''      **User's Refactor Request:** \<newline>'' @
          ''      "'') @
     (if refactor_prompt = [] then lit ''No specific request provided. Focus on general UI/UX improvements.'' else refactor_prompt) @
     lit (''"\<newline>'' @
          ''\<newline>'' @
          ''      **User's Target Style:**\<newline>'' @
          ''      "'') @
     (if style_prompt = [] then lit ''No specific style provided. Use your best judgment for a modern, clean design.'' else style_prompt) @
     lit (''"\<newline>'' @
          ''\<newline>'' @
          ''      ---\<newline>'' @
          ''\<newline>'' @
          ''      Based on all of the above, please identify the language, rewrite the code, provide an explanation for your changes, and list any required dependencies.\<newline>'' @
          ''    '')\<close>

text \<open>
  The two collaborators of \<open>getUIImprovementFromCode\<close> that are not code of the
  repository are parameters: \<open>generateContent\<close>, the backend call, which for the
  composed prompt either rejects with an error or resolves to a response whose \<open>text\<close>
  is a string or \<open>undefined\<close>; and \<open>JSON_parse\<close>, which throws or returns a value.

  \<open>getUIImprovementFromCode_try\<close> is the body of the \<open>try\<close> block,
  \<open>getUIImprovementFromCode\<close> the function with its \<open>catch\<close>, which throws a new
  \<open>Error\<close> whatever was caught. The \<open>console.error\<close> calls write a log only.
\<close>

type_synonym backend = "jsstring \<Rightarrow> js_error + jsstring option"

type_synonym json_parser = "jsstring \<Rightarrow> js_error + jsval"

definition getUIImprovementFromCode_try ::
  "json_parser \<Rightarrow> backend \<Rightarrow> jsstring \<Rightarrow> jsstring \<Rightarrow> jsstring \<Rightarrow> js_error + jsval" where
  "getUIImprovementFromCode_try JSON_parse generateContent user_code refactor_prompt style_prompt =
     (case generateContent (fullPrompt user_code refactor_prompt style_prompt) of
        Inl rejection \<Rightarrow> Inl rejection
      | Inr response_text \<Rightarrow>
          (case response_text of
             None \<Rightarrow> Inl (Error (lit ''Cannot read properties of undefined''))
           | Some txt \<Rightarrow>
               (let jsonStr = trim txt in
                if startsWith jsonStr (lit ''{'') \<and> endsWith jsonStr (lit ''}'') then
                  (case JSON_parse jsonStr of
                     Inl syntax_error \<Rightarrow> Inl syntax_error
                   | Inr result \<Rightarrow>
                       (case get_prop result (lit ''language'') of
                          Inl type_error \<Rightarrow> Inl type_error
                        | Inr lang \<Rightarrow>
                            if lang \<noteq> Str (lit ''tsx'') \<and> lang \<noteq> Str (lit ''html'')
                            then Inl (Error (lit ''AI returned an invalid language type.''))
                            else Inr result))
                else Inl (Error (lit ''Received an invalid response from the AI. It might have been too complex to process.'')))))"

definition getUIImprovementFromCode ::
  "json_parser \<Rightarrow> backend \<Rightarrow> jsstring \<Rightarrow> jsstring \<Rightarrow> jsstring \<Rightarrow> js_error + jsval" where
  "getUIImprovementFromCode JSON_parse generateContent user_code refactor_prompt style_prompt =
     (case getUIImprovementFromCode_try JSON_parse generateContent user_code refactor_prompt style_prompt of
        Inl caught \<Rightarrow> Inl (Error (lit ''Failed to get UI improvement from code. The AI may have been unable to process the request.''))
      | Inr result \<Rightarrow> Inr result)"

section \<open>The form and its submit handler (components/InputForm)\<close>

text \<open>
  The state variables of \<open>InputForm\<close>. The result fields hold whatever the handler
  stores: the values of the parsed reply, which nothing checks beyond \<open>language\<close>.
\<close>

record form_state =
  userCode :: jsstring
  refactorPrompt :: jsstring
  stylePrompt :: jsstring
  improvedCode :: jsval
  explanation :: jsval
  language :: jsval
  dependencies :: jsval
  isLoading :: bool
  error :: "jsstring option"

definition initial_state :: form_state where
  "initial_state =
     \<lparr>userCode = [], refactorPrompt = [], stylePrompt = [],
      improvedCode = Str [], explanation = Str [], language = Str (lit ''tsx''),
      dependencies = Arr [], isLoading = False, error = None\<rparr>"

text \<open>
  \<open>handleSubmit\<close> up to its \<open>await\<close>: the state after the synchronous setter calls
  and, when the guard lets the submit through, the arguments of the call of
  \<open>getUIImprovementFromCode\<close> that is awaited; \<open>None\<close> is the early \<open>return\<close>.
\<close>

definition handleSubmit_begin ::
  "form_state \<Rightarrow> form_state \<times> (jsstring \<times> jsstring \<times> jsstring) option" where
  "handleSubmit_begin st =
     (if trim (userCode st) = []
      then (st\<lparr>error := Some (lit ''Please provide some component code to refactor.'')\<rparr>, None)
      else (st\<lparr>isLoading := True, error := None, improvedCode := Str [],
                explanation := Str [], dependencies := Arr []\<rparr>,
            Some (userCode st, refactorPrompt st, stylePrompt st)))"

text \<open>
  \<open>handleSubmit\<close> from the settlement of the awaited call on: the destructuring of
  the result and the four setters, the \<open>catch\<close>, and the \<open>finally\<close>.
\<close>

definition handleSubmit_settle :: "js_error + jsval \<Rightarrow> form_state \<Rightarrow> form_state" where
  "handleSubmit_settle outcome st =
     (case (case outcome of
              Inl e \<Rightarrow> Inl e
            | Inr result \<Rightarrow>
                (case get_prop result (lit ''improvedCode'') of Inl e \<Rightarrow> Inl e | Inr newCode \<Rightarrow>
                (case get_prop result (lit ''explanation'') of Inl e \<Rightarrow> Inl e | Inr newExplanation \<Rightarrow>
                (case get_prop result (lit ''language'') of Inl e \<Rightarrow> Inl e | Inr newLang \<Rightarrow>
                (case get_prop result (lit ''dependencies'') of Inl e \<Rightarrow> Inl e | Inr newDeps \<Rightarrow>
                   Inr (st\<lparr>improvedCode := newCode, explanation := newExplanation,
                           language := newLang, dependencies := newDeps\<rparr>)))))) of
        Inl e \<Rightarrow>
          st\<lparr>error := Some (if message e = [] then lit ''An unexpected error occurred.''
                             else message e)\<rparr>
      | Inr st' \<Rightarrow> st')\<lparr>isLoading := False\<rparr>"

text \<open>
  The whole handler: the values of the state variables after its last setter call.
\<close>

definition handleSubmit :: "json_parser \<Rightarrow> backend \<Rightarrow> form_state \<Rightarrow> form_state" where
  "handleSubmit JSON_parse generateContent st =
     (case handleSubmit_begin st of
        (st', None) \<Rightarrow> st'
      | (st', Some (u, r, s)) \<Rightarrow>
          handleSubmit_settle (getUIImprovementFromCode JSON_parse generateContent u r s) st')"

text \<open>
  What \<open>handleSubmit\<close> does, call by call and in the order of the source: each call of a
  setter of the form's state with its argument, and the awaited call of
  \<open>getUIImprovementFromCode\<close> with its three arguments. After the guard's \<open>setError\<close> the
  handler returns; otherwise the five calls before the \<open>await\<close> are followed by the four
  setters of the destructured result or by the \<open>setError\<close> of the \<open>catch\<close>, and by the
  \<open>setIsLoading(false)\<close> of the \<open>finally\<close>.
\<close>

datatype effect =
    SetIsLoading bool
  | SetError "jsstring option"
  | SetImprovedCode jsval
  | SetExplanation jsval
  | SetLanguage jsval
  | SetDependencies jsval
  | AwaitImprovement jsstring jsstring jsstring

definition handleSubmit_effects :: "json_parser \<Rightarrow> backend \<Rightarrow> form_state \<Rightarrow> effect list" where
  "handleSubmit_effects JSON_parse generateContent st =
     (if trim (userCode st) = []
      then [SetError (Some (lit ''Please provide some component code to refactor.''))]
      else
        [SetIsLoading True, SetError None, SetImprovedCode (Str []), SetExplanation (Str []),
         SetDependencies (Arr []),
         AwaitImprovement (userCode st) (refactorPrompt st) (stylePrompt st)] @
        (case (case getUIImprovementFromCode JSON_parse generateContent
                      (userCode st) (refactorPrompt st) (stylePrompt st) of
                 Inl e \<Rightarrow> Inl e
               | Inr result \<Rightarrow>
                   (case get_prop result (lit ''improvedCode'') of Inl e \<Rightarrow> Inl e | Inr newCode \<Rightarrow>
                   (case get_prop result (lit ''explanation'') of Inl e \<Rightarrow> Inl e | Inr newExplanation \<Rightarrow>
                   (case get_prop result (lit ''language'') of Inl e \<Rightarrow> Inl e | Inr newLang \<Rightarrow>
                   (case get_prop result (lit ''dependencies'') of Inl e \<Rightarrow> Inl e | Inr newDeps \<Rightarrow>
                      Inr [SetImprovedCode newCode, SetExplanation newExplanation,
                           SetLanguage newLang, SetDependencies newDeps]))))) of
           Inl e \<Rightarrow>
             [SetError (Some (if message e = [] then lit ''An unexpected error occurred.''
                              else message e))]
         | Inr setters \<Rightarrow> setters) @
        [SetIsLoading False])"

text \<open>What a call does to the state variables: a setter stores its argument.\<close>

fun apply_effect :: "form_state \<Rightarrow> effect \<Rightarrow> form_state" where
  "apply_effect st (SetIsLoading b) = st\<lparr>isLoading := b\<rparr>"
| "apply_effect st (SetError e) = st\<lparr>error := e\<rparr>"
| "apply_effect st (SetImprovedCode v) = st\<lparr>improvedCode := v\<rparr>"
| "apply_effect st (SetExplanation v) = st\<lparr>explanation := v\<rparr>"
| "apply_effect st (SetLanguage v) = st\<lparr>language := v\<rparr>"
| "apply_effect st (SetDependencies v) = st\<lparr>dependencies := v\<rparr>"
| "apply_effect st (AwaitImprovement u r s) = st"

section \<open>The output panel and the live preview (components/OutputDisplay)\<close>

text \<open>The string \<open>iframeContent\<close> of \<open>LivePreview\<close>, a function of its three props.\<close>

definition iframeContent :: "jsstring \<Rightarrow> jsstring \<Rightarrow> jsstring \<Rightarrow> jsstring" where
  \<open>iframeContent code_text lang theme =
     (let htmlClass = (if theme = lit ''dark'' then lit ''class="dark"'' else []);
          bodyBg = (if theme = lit ''dark'' then lit ''#0f172a'' else lit ''#ffffff'');
          textColor = (if theme = lit ''dark'' then lit ''#cbd5e1'' else lit ''#334155'')
      in if lang = lit ''tsx'' then
        lit (''\<newline>'' @
             ''                <html '') @
        htmlClass @
        lit (''>\<newline>'' @
             ''                    <head>\<newline>'' @
             ''                        <script src="https://cdn.tailwindcss.com"></script>\<newline>'' @
             ''                        <script>\<newline>'' @
             ''                            tailwind.config = { darkMode: 'class' }\<newline>'' @
             ''                        </script>\<newline>'' @
             ''                        <script src="https://unpkg.com/react@18/umd/react.development.js"></script>\<newline>'' @
             ''                        <script src="https://unpkg.com/react-dom@18/umd/react-dom.development.js"></script>\<newline>'' @
             ''                        <script src="https://unpkg.com/@babel/standalone/babel.min.js"></script>\<newline>'' @
             ''                        <style>\<newline>'' @
             ''                            body { \<newline>'' @
             ''                                margin: 0; \<newline>'' @
             ''                                display: flex; \<newline>'' @
             ''                                justify-content: center; \<newline>'' @
             ''                                align-items: center; \<newline>'' @
             ''                                min-height: 100vh; \<newline>'' @
             ''                                background-color: '') @
        bodyBg @
        lit (''; \<newline>'' @
             ''                                color: '') @
        textColor @
        lit ('';\<newline>'' @
             ''                                padding: 1rem; \<newline>'' @
             ''                                font-family: sans-serif;\<newline>'' @
             ''                            }\<newline>'' @
             ''                        </style>\<newline>'' @
             ''                    </head>\<newline>'' @
             ''                    <body>\<newline>'' @
             ''                        <div id="root"></div>\<newline>'' @
             ''                        <script type="text/babel">\<newline>'' @
             ''                            try {\<newline>'' @
             ''                                '') @
        code_text @
        lit (''\<newline>'' @
             ''                                if (typeof RefactoredComponent !== 'undefined') {\<newline>'' @
             ''                                    const container = document.getElementById('root');\<newline>'' @
             ''                                    const root = ReactDOM.createRoot(container);\<newline>'' @
             ''                                    root.render(<RefactoredComponent />);\<newline>'' @
             ''                                } else {\<newline>'' @
             ''                                     document.getElementById('root').innerHTML = '<div style="color: #f97316; font-family: monospace; padding: 1rem;">Error: RefactoredComponent function not found in the generated code.</div>';\<newline>'' @
             ''                                }\<newline>'' @
             ''                            } catch(e) {\<newline>'' @
             ''                                document.getElementById('root').innerHTML = '<div style="color: #ef4444; font-family: monospace; padding: 1rem;"><strong>Script Error:</strong><br/>' + e.message + '</div>';\<newline>'' @
             ''                            }\<newline>'' @
             ''                        </script>\<newline>'' @
             ''                    </body>\<newline>'' @
             ''                </html>\<newline>'' @
             ''            '')
      else
        lit (''\<newline>'' @
             ''                <html '') @
        htmlClass @
        lit (''>\<newline>'' @
             ''                    <head>\<newline>'' @
             ''                        <script src="https://cdn.tailwindcss.com"></script>\<newline>'' @
             ''                         <script>\<newline>'' @
             ''                            tailwind.config = { darkMode: 'class' }\<newline>'' @
             ''                        </script>\<newline>'' @
             ''                        <style>\<newline>'' @
             ''                           body { \<newline>'' @
             ''                                padding: 1rem; \<newline>'' @
             ''                                background-color: '') @
        bodyBg @
        lit (''; \<newline>'' @
             ''                                color: '') @
        textColor @
        lit ('';\<newline>'' @
             ''                                font-family: sans-serif;\<newline>'' @
             ''                            }\<newline>'' @
             ''                        </style>\<newline>'' @
             ''                    </head>\<newline>'' @
             ''                    <body>\<newline>'' @
             ''                        '') @
        code_text @
        lit (''\<newline>'' @
             ''                    </body>\<newline>'' @
             ''                </html>\<newline>'' @
             ''            ''))\<close>

text \<open>What \<open>renderContent\<close> of \<open>OutputDisplay\<close> returns: the component and its props.\<close>

datatype tab = TabPreview | TabCode | TabExplanation | TabDependencies

datatype rendered =
    LoadingSkeleton
  | ErrorPanel jsstring
  | ReadyToRefactor
  | LivePreview jsval jsval jsstring
  | CodeBlock jsval jsval jsstring
  | MarkdownRenderer jsval
  | DependenciesView jsval

definition renderContent :: "form_state \<Rightarrow> tab \<Rightarrow> jsstring \<Rightarrow> rendered" where
  "renderContent st activeTab theme =
     (if isLoading st then LoadingSkeleton
      else if error st \<noteq> None \<and> error st \<noteq> Some [] then ErrorPanel (the (error st))
      else if \<not> ToBoolean (improvedCode st) then ReadyToRefactor
      else (case activeTab of
              TabPreview \<Rightarrow> LivePreview (improvedCode st) (language st) theme
            | TabCode \<Rightarrow> CodeBlock (improvedCode st) (language st) theme
            | TabExplanation \<Rightarrow> MarkdownRenderer (explanation st)
            | TabDependencies \<Rightarrow> DependenciesView (dependencies st)))"

section \<open>Facts about strings\<close>

lemma lit_append: "lit (a @ b) = lit a @ lit b"
  by (simp add: lit_def)

lemma inj_code_unit: "inj (\<lambda>c. (of_nat (of_char c) :: 16 word))"
proof (rule injI)
  fix x y :: char
  assume h: "(of_nat (of_char x) :: 16 word) = of_nat (of_char y)"
  have bx: "(of_char x :: nat) < 2 ^ 16"
    by (rule less_trans [OF nat_of_char_less_256]) simp
  have b: "(of_char y :: nat) < 2 ^ 16"
    by (rule less_trans [OF nat_of_char_less_256]) simp
  from h have "unat (of_nat (of_char x) :: 16 word) = unat (of_nat (of_char y) :: 16 word)"
    by simp
  with bx b have "(of_char x :: nat) = of_char y"
    by (simp add: unat_of_nat)
  then show "x = y" by simp
qed

lemma lit_eq_iff: "lit a = lit b \<longleftrightarrow> a = b"
  unfolding lit_def using inj_code_unit by (rule inj_map_eq_map)

lemma lit_eq_Nil: "lit a = [] \<longleftrightarrow> a = []"
  by (simp add: lit_def)

lemma trim_Nil: "trim [] = []"
  by (simp add: trim_def)

lemma trim_whitespace_only:
  assumes "list_all isWhiteSpace s"
  shows "trim s = []"
proof -
  from assms have d: "dropWhile isWhiteSpace s = []"
    by (induction s) simp_all
  show ?thesis
    unfolding trim_def d by simp
qed

section \<open>Facts about searching a text\<close>

lemma startsWith_Nil: "startsWith s [] = True"
  by (simp add: startsWith_def)

lemma startsWith_Nil_Cons: "startsWith [] (p # ps) = False"
  by (simp add: startsWith_def)

lemma startsWith_Cons_Cons:
  "startsWith (c # s) (p # ps) = (if c = p then startsWith s ps else False)"
  by (auto simp: startsWith_def)

lemma startsWith_map:
  assumes "inj f"
  shows "startsWith (map f s) (map f p) = startsWith s p"
proof -
  have "take (length p) (map f s) = map f (take (length p) s)"
    by (simp add: take_map)
  then show ?thesis
    using assms by (simp add: startsWith_def inj_map_eq_map)
qed

lemma str_includes_map:
  assumes "inj f"
  shows "str_includes (map f s) (map f p) = str_includes s p"
proof (induction s)
  case Nil
  then show ?case by simp
next
  case (Cons c s)
  have "startsWith (f c # map f s) (map f p) = startsWith (c # s) p"
    using startsWith_map [OF assms, of "c # s" p] by simp
  with Cons show ?case by simp
qed

lemma occurrences_map:
  assumes "inj f"
  shows "occurrences (map f s) (map f p) = occurrences s p"
proof (induction s)
  case Nil
  then show ?case by simp
next
  case (Cons c s)
  have "startsWith (f c # map f s) (map f p) = startsWith (c # s) p"
    using startsWith_map [OF assms, of "c # s" p] by simp
  with Cons show ?case by simp
qed

lemma str_includes_lit: "str_includes (lit a) (lit b) = str_includes a b"
  unfolding lit_def using inj_code_unit by (rule str_includes_map)

lemma occurrences_lit: "occurrences (lit a) (lit b) = occurrences a b"
  unfolding lit_def using inj_code_unit by (rule occurrences_map)

text \<open>
  Rewrite rules that search a literal text from left to right, deciding each step on the
  first character alone.
\<close>

lemma str_includes_Nil_Cons: "str_includes [] (p # ps) = False"
  by simp

lemma str_includes_skip:
  "c \<noteq> p \<Longrightarrow> str_includes (c # s) (p # ps) = str_includes s (p # ps)"
  by (simp add: startsWith_Cons_Cons)

lemma str_includes_hit: "startsWith s ps \<Longrightarrow> str_includes (p # s) (p # ps) = True"
  by (simp add: startsWith_Cons_Cons)

lemma str_includes_miss:
  "\<not> startsWith s ps \<Longrightarrow> str_includes (p # s) (p # ps) = str_includes s (p # ps)"
  by (simp add: startsWith_Cons_Cons)

lemma occurrences_Nil_Cons: "occurrences [] (p # ps) = 0"
  by simp

lemma occurrences_skip:
  "c \<noteq> p \<Longrightarrow> occurrences (c # s) (p # ps) = occurrences s (p # ps)"
  by (simp add: startsWith_Cons_Cons)

lemma occurrences_hit:
  "startsWith s ps \<Longrightarrow> occurrences (p # s) (p # ps) = Suc (occurrences s (p # ps))"
  by (simp add: startsWith_Cons_Cons)

lemma occurrences_miss:
  "\<not> startsWith s ps \<Longrightarrow> occurrences (p # s) (p # ps) = occurrences s (p # ps)"
  by (simp add: startsWith_Cons_Cons)

lemmas search_eval =
  startsWith_Nil startsWith_Nil_Cons startsWith_Cons_Cons
  str_includes_Nil_Cons str_includes_skip str_includes_hit str_includes_miss
  occurrences_Nil_Cons occurrences_skip occurrences_hit occurrences_miss

section \<open>Failures of the completion client\<close>

text \<open>Whatever the \<open>try\<close> block throws, the \<open>catch\<close> throws the same new error.\<close>

lemma getUI_failure_message:
  "getUIImprovementFromCode P G u r s = Inl e \<Longrightarrow>
   e = Error (lit ''Failed to get UI improvement from code. The AI may have been unable to process the request.'')"
  by (auto simp: getUIImprovementFromCode_def split: sum.splits)

lemma getUI_rejected:
  assumes "G (fullPrompt u r s) = Inl rejection"
  shows "getUIImprovementFromCode P G u r s =
      Inl (Error (lit ''Failed to get UI improvement from code. The AI may have been unable to process the request.''))"
  using assms by (simp add: getUIImprovementFromCode_def getUIImprovementFromCode_try_def)

text \<open>
  C9. When the backend call itself rejects, the completion client throws the error with the
  message "Failed to get UI improvement from code. The AI may have been unable to process
  the request.", and a submit that passed the guard ends with the form not loading, its
  error being exactly that message, and the output panel showing it.
\<close>

theorem transport_failure_message:
  assumes guard: "trim (userCode st) \<noteq> []"
    and rejects: "generateContent (fullPrompt (userCode st) (refactorPrompt st) (stylePrompt st)) = Inl rejection"
  shows "getUIImprovementFromCode JSON_parse generateContent (userCode st) (refactorPrompt st) (stylePrompt st) =
      Inl (Error (lit ''Failed to get UI improvement from code. The AI may have been unable to process the request.''))
    \<and> error (handleSubmit JSON_parse generateContent st) =
      Some (lit ''Failed to get UI improvement from code. The AI may have been unable to process the request.'')
    \<and> isLoading (handleSubmit JSON_parse generateContent st) = False
    \<and> renderContent (handleSubmit JSON_parse generateContent st) activeTab theme =
      ErrorPanel (lit ''Failed to get UI improvement from code. The AI may have been unable to process the request.'')"
  using guard getUI_rejected [where G = generateContent and P = JSON_parse, OF rejects]
  by (simp add: handleSubmit_def handleSubmit_begin_def handleSubmit_settle_def renderContent_def lit_eq_Nil)

theorem transport_failure_message_witness:
  "(let st = initial_state\<lparr>userCode := lit ''<b>x</b>''\<rparr>;
       gen = (\<lambda>p. Inl (Error (lit ''fetch failed'')));
       parse = (\<lambda>s. Inl (Error (lit ''Unexpected token'')))
   in trim (userCode st) \<noteq> []
    \<and> gen (fullPrompt (userCode st) (refactorPrompt st) (stylePrompt st)) = Inl (Error (lit ''fetch failed''))
    \<and> error (handleSubmit parse gen st) =
      Some (lit ''Failed to get UI improvement from code. The AI may have been unable to process the request.''))"
proof -
  let ?st = "initial_state\<lparr>userCode := lit ''<b>x</b>''\<rparr>"
  let ?gen = "(\<lambda>p. Inl (Error (lit ''fetch failed''))) :: backend"
  have g: "trim (userCode ?st) \<noteq> []"
    by (simp add: initial_state_def trim_def lit_def isWhiteSpace_def)
  have r: "?gen (fullPrompt (userCode ?st) (refactorPrompt ?st) (stylePrompt ?st)) = Inl (Error (lit ''fetch failed''))"
    by simp
  show ?thesis
    using g transport_failure_message [OF g r, of "\<lambda>s. Inl (Error (lit ''Unexpected token''))"]
    by (simp add: Let_def)
qed

text \<open>
  C1. A reply that is a JSON object whose \<open>language\<close> is neither \<open>tsx\<close> nor \<open>html\<close>
  is to surface a distinct "invalid language" error. The code throws that error inside its
  own \<open>try\<close> block, so the \<open>catch\<close> replaces it: at the reply below the \<open>try\<close> block
  throws "AI returned an invalid language type.", yet the caller receives, and the form
  stores, the message of a failed request.
\<close>

theorem invalid_language_error_replaced:
  \<open>(let reply = lit ''{"language":"python","improvedCode":"print(1)","explanation":"none","dependencies":[]}'';
        parsed = Obj [(lit ''language'', Str (lit ''python'')),
                      (lit ''improvedCode'', Str (lit ''print(1)'')),
                      (lit ''explanation'', Str (lit ''none'')),
                      (lit ''dependencies'', Arr [])];
        JSON_parse = (\<lambda>s. if s = reply then Inr parsed else Inl (Error (lit ''Unexpected token'')));
        generateContent = (\<lambda>p. Inr (Some reply));
        st = initial_state\<lparr>userCode := lit ''<b>x</b>''\<rparr>
    in getUIImprovementFromCode_try JSON_parse generateContent (lit ''<b>x</b>'') [] [] =
         Inl (Error (lit ''AI returned an invalid language type.''))
     \<and> getUIImprovementFromCode JSON_parse generateContent (lit ''<b>x</b>'') [] [] =
         Inl (Error (lit ''Failed to get UI improvement from code. The AI may have been unable to process the request.''))
     \<and> error (handleSubmit JSON_parse generateContent st) =
         Some (lit ''Failed to get UI improvement from code. The AI may have been unable to process the request.'')
     \<and> error (handleSubmit JSON_parse generateContent st) \<noteq>
         Some (lit ''AI returned an invalid language type.''))\<close>
proof -
  let ?reply = \<open>lit ''{"language":"python","improvedCode":"print(1)","explanation":"none","dependencies":[]}''\<close>
  let ?parsed = "Obj [(lit ''language'', Str (lit ''python'')),
                      (lit ''improvedCode'', Str (lit ''print(1)'')),
                      (lit ''explanation'', Str (lit ''none'')),
                      (lit ''dependencies'', Arr [])]"
  let ?P = "(\<lambda>s. if s = ?reply then Inr ?parsed else Inl (Error (lit ''Unexpected token''))) :: json_parser"
  let ?G = "(\<lambda>p. Inr (Some ?reply)) :: backend"
  have t: "trim ?reply = ?reply"
    by (simp add: trim_def lit_def isWhiteSpace_def)
  have sw: "startsWith ?reply (lit ''{'')" and ew: "endsWith ?reply (lit ''}'')"
    by (simp_all add: startsWith_def endsWith_def lit_def)
  have l: "get_prop ?parsed (lit ''language'') = Inr (Str (lit ''python''))"
    by simp
  have thrown: "getUIImprovementFromCode_try ?P ?G (lit ''<b>x</b>'') [] [] =
         Inl (Error (lit ''AI returned an invalid language type.''))"
    unfolding getUIImprovementFromCode_try_def
    by (simp add: t sw ew l lit_eq_iff del: get_prop.simps)
  have g: "trim (lit ''<b>x</b>'') \<noteq> []"
    by (simp add: trim_def lit_def isWhiteSpace_def)
  show ?thesis
    unfolding Let_def
    by (simp add: thrown g getUIImprovementFromCode_def handleSubmit_def handleSubmit_begin_def
        handleSubmit_settle_def initial_state_def lit_eq_iff lit_eq_Nil)
qed

text \<open>
  C2. A reply that is not one JSON object (here: leading prose and a truncated object) is to
  end with the "invalid response" message. The \<open>try\<close> block throws "Received an invalid
  response from the AI. It might have been too complex to process.", and the \<open>catch\<close>
  around it replaces that message by the one of a failed request as well.
\<close>

theorem invalid_response_error_replaced:
  \<open>(let reply = lit ''Here is the refactored component: {"language":"html"'';
        JSON_parse = (\<lambda>s. Inl (Error (lit ''Unexpected token'')));
        generateContent = (\<lambda>p. Inr (Some reply));
        st = initial_state\<lparr>userCode := lit ''<b>x</b>''\<rparr>
    in getUIImprovementFromCode_try JSON_parse generateContent (lit ''<b>x</b>'') [] [] =
         Inl (Error (lit ''Received an invalid response from the AI. It might have been too complex to process.''))
     \<and> getUIImprovementFromCode JSON_parse generateContent (lit ''<b>x</b>'') [] [] =
         Inl (Error (lit ''Failed to get UI improvement from code. The AI may have been unable to process the request.''))
     \<and> error (handleSubmit JSON_parse generateContent st) =
         Some (lit ''Failed to get UI improvement from code. The AI may have been unable to process the request.'')
     \<and> error (handleSubmit JSON_parse generateContent st) \<noteq>
         Some (lit ''Received an invalid response from the AI. It might have been too complex to process.''))\<close>
proof -
  let ?reply = \<open>lit ''Here is the refactored component: {"language":"html"''\<close>
  let ?P = "(\<lambda>s. Inl (Error (lit ''Unexpected token''))) :: json_parser"
  let ?G = "(\<lambda>p. Inr (Some ?reply)) :: backend"
  have t: "trim ?reply = ?reply"
    by (simp add: trim_def lit_def isWhiteSpace_def)
  have sw: "\<not> startsWith ?reply (lit ''{'')"
    by (simp add: startsWith_def lit_def)
  have thrown: "getUIImprovementFromCode_try ?P ?G (lit ''<b>x</b>'') [] [] =
         Inl (Error (lit ''Received an invalid response from the AI. It might have been too complex to process.''))"
    unfolding getUIImprovementFromCode_try_def
    by (simp add: t sw)
  have g: "trim (lit ''<b>x</b>'') \<noteq> []"
    by (simp add: trim_def lit_def isWhiteSpace_def)
  show ?thesis
    unfolding Let_def
    by (simp add: thrown g getUIImprovementFromCode_def handleSubmit_def handleSubmit_begin_def
        handleSubmit_settle_def initial_state_def lit_eq_iff lit_eq_Nil)
qed

section \<open>Accepted replies\<close>

text \<open>
  C3. When the trimmed reply begins with an opening and ends with a closing brace, parses
  to an object whose \<open>language\<close> is \<open>tsx\<close> or \<open>html\<close>, and has the properties \<open>improvedCode\<close>,
  \<open>explanation\<close> and \<open>dependencies\<close>, the completion client returns that very
  object, and the handler stores the four property values as they are.
\<close>

theorem valid_reply_round_trip:
  assumes reply: "generateContent (fullPrompt u r s) = Inr (Some reply)"
    and open_brace: "startsWith (trim reply) (lit ''{'')"
    and close_brace: "endsWith (trim reply) (lit ''}'')"
    and parsed: "JSON_parse (trim reply) = Inr (Obj props)"
    and lang: "map_of props (lit ''language'') = Some l"
      "l = Str (lit ''tsx'') \<or> l = Str (lit ''html'')"
    and present: "map_of props (lit ''improvedCode'') = Some c"
      "map_of props (lit ''explanation'') = Some e"
      "map_of props (lit ''dependencies'') = Some d"
  shows "getUIImprovementFromCode JSON_parse generateContent u r s = Inr (Obj props)
    \<and> handleSubmit_settle (getUIImprovementFromCode JSON_parse generateContent u r s) st =
        st\<lparr>improvedCode := c, explanation := e, language := l, dependencies := d,
           isLoading := False\<rparr>"
proof -
  have ok: "getUIImprovementFromCode_try JSON_parse generateContent u r s = Inr (Obj props)"
    using reply open_brace close_brace parsed lang
    by (auto simp: getUIImprovementFromCode_try_def)
  then have res: "getUIImprovementFromCode JSON_parse generateContent u r s = Inr (Obj props)"
    by (simp add: getUIImprovementFromCode_def)
  show ?thesis
    using lang(1) present by (simp add: res handleSubmit_settle_def)
qed

theorem valid_reply_round_trip_witness:
  \<open>(let reply = lit '' {"language":"html","improvedCode":"<b>y</b>","explanation":"Shorter.","dependencies":[]}\<newline>'';
        props = [(lit ''language'', Str (lit ''html'')),
                 (lit ''improvedCode'', Str (lit ''<b>y</b>'')),
                 (lit ''explanation'', Str (lit ''Shorter.'')),
                 (lit ''dependencies'', Arr [])];
        JSON_parse = (\<lambda>s. if s = trim reply then Inr (Obj props) else Inl (Error (lit ''Unexpected token'')));
        generateContent = (\<lambda>p. Inr (Some reply))
    in startsWith (trim reply) (lit ''{'') \<and> endsWith (trim reply) (lit ''}'')
     \<and> getUIImprovementFromCode JSON_parse generateContent (lit ''<b>x</b>'') [] [] = Inr (Obj props)
     \<and> handleSubmit_settle
           (getUIImprovementFromCode JSON_parse generateContent (lit ''<b>x</b>'') [] []) initial_state =
         initial_state\<lparr>improvedCode := Str (lit ''<b>y</b>''), explanation := Str (lit ''Shorter.''),
           language := Str (lit ''html''), dependencies := Arr [], isLoading := False\<rparr>)\<close>
proof -
  let ?reply = \<open>lit '' {"language":"html","improvedCode":"<b>y</b>","explanation":"Shorter.","dependencies":[]}\<newline>''\<close>
  let ?props = "[(lit ''language'', Str (lit ''html'')),
                 (lit ''improvedCode'', Str (lit ''<b>y</b>'')),
                 (lit ''explanation'', Str (lit ''Shorter.'')),
                 (lit ''dependencies'', Arr [])]"
  let ?P = "(\<lambda>s. if s = trim ?reply then Inr (Obj ?props) else Inl (Error (lit ''Unexpected token''))) :: json_parser"
  let ?G = "(\<lambda>p. Inr (Some ?reply)) :: backend"
  have t: \<open>trim ?reply = lit ''{"language":"html","improvedCode":"<b>y</b>","explanation":"Shorter.","dependencies":[]}''\<close>
    by (simp add: trim_def lit_def isWhiteSpace_def)
  have sw: "startsWith (trim ?reply) (lit ''{'')" and ew: "endsWith (trim ?reply) (lit ''}'')"
    unfolding t by (simp_all add: startsWith_def endsWith_def lit_def)
  have g: "?G (fullPrompt (lit ''<b>x</b>'') [] []) = Inr (Some ?reply)"
    by simp
  have p: "?P (trim ?reply) = Inr (Obj ?props)"
    by simp
  have l: "map_of ?props (lit ''language'') = Some (Str (lit ''html''))"
    by simp
  have c: "map_of ?props (lit ''improvedCode'') = Some (Str (lit ''<b>y</b>''))"
    by (simp add: lit_eq_iff)
  have e: "map_of ?props (lit ''explanation'') = Some (Str (lit ''Shorter.''))"
    by (simp add: lit_eq_iff)
  have d: "map_of ?props (lit ''dependencies'') = Some (Arr [])"
    by (simp add: lit_eq_iff)
  have v: "Str (lit ''html'') = Str (lit ''tsx'') \<or> Str (lit ''html'') = Str (lit ''html'')"
    by simp
  note rt =
      valid_reply_round_trip [where generateContent = ?G and JSON_parse = ?P and reply = ?reply
        and props = ?props and st = initial_state and u = "lit ''<b>x</b>''" and r = "[]" and s = "[]", OF g sw ew p l v c e d]
  show ?thesis
    unfolding Let_def using sw ew rt by blast
qed

section \<open>The submit guard and the transition to loading\<close>

text \<open>
  C4, as stated, fails twice. After a submit that passes the guard the form is loading and
  still holds the \<open>language\<close> of the previous result (\<open>html\<close>, not the initial \<open>tsx\<close>):
  the handler resets four state variables and \<open>language\<close> is not one of them. And the
  source \<open>" "\<close> is non-empty, yet its submit resets nothing: the previous rewritten code
  stays in the state.
\<close>

theorem submit_keeps_language_counterexample:
  "isLoading (fst (handleSubmit_begin
       (initial_state\<lparr>userCode := lit ''<b>x</b>'', improvedCode := Str (lit ''<i>old</i>''),
          language := Str (lit ''html'')\<rparr>)))
   \<and> language (fst (handleSubmit_begin
       (initial_state\<lparr>userCode := lit ''<b>x</b>'', improvedCode := Str (lit ''<i>old</i>''),
          language := Str (lit ''html'')\<rparr>))) = Str (lit ''html'')
   \<and> Str (lit ''html'') \<noteq> language initial_state
   \<and> lit '' '' \<noteq> []
   \<and> handleSubmit_begin
       (initial_state\<lparr>userCode := lit '' '', improvedCode := Str (lit ''<i>old</i>'')\<rparr>) =
       (initial_state\<lparr>userCode := lit '' '', improvedCode := Str (lit ''<i>old</i>''),
          error := Some (lit ''Please provide some component code to refactor.'')\<rparr>, None)"
proof -
  have a: "trim (lit ''<b>x</b>'') \<noteq> []"
    by (simp add: trim_def lit_def isWhiteSpace_def)
  have b: "trim (lit '' '') = []"
    by (simp add: trim_def lit_def isWhiteSpace_def)
  show ?thesis
    by (simp add: handleSubmit_begin_def initial_state_def a b lit_eq_iff lit_eq_Nil)
qed

text \<open>
  C4, amended. On every submit whose trimmed source code is non-empty, the handler, before
  the call of the completion client, sets the rewritten code and the explanation to the
  empty string, the dependencies to the empty array and the error to \<open>null\<close>, and turns
  loading on; the detected language and the three inputs keep their values. The state while
  pending is determined by the inputs and the previous language alone, and the output panel
  renders the loading skeleton whatever tab is active.
\<close>

theorem submit_clears_previous_result:
  assumes "trim (userCode st) \<noteq> []"
  shows "fst (handleSubmit_begin st) =
      \<lparr>userCode = userCode st, refactorPrompt = refactorPrompt st, stylePrompt = stylePrompt st,
       improvedCode = Str [], explanation = Str [], language = language st,
       dependencies = Arr [], isLoading = True, error = None\<rparr>
    \<and> snd (handleSubmit_begin st) = Some (userCode st, refactorPrompt st, stylePrompt st)
    \<and> renderContent (fst (handleSubmit_begin st)) activeTab theme = LoadingSkeleton"
  using assms by (cases st) (simp add: handleSubmit_begin_def renderContent_def)

theorem submit_clears_previous_result_witness:
  "trim (userCode (initial_state\<lparr>userCode := lit ''<b>x</b>'', improvedCode := Str (lit ''<i>old</i>''),
          explanation := Str (lit ''old''), dependencies := Arr [Str (lit ''npm install clsx'')],
          language := Str (lit ''html''), error := Some (lit ''old error'')\<rparr>)) \<noteq> []
   \<and> fst (handleSubmit_begin
       (initial_state\<lparr>userCode := lit ''<b>x</b>'', improvedCode := Str (lit ''<i>old</i>''),
          explanation := Str (lit ''old''), dependencies := Arr [Str (lit ''npm install clsx'')],
          language := Str (lit ''html''), error := Some (lit ''old error'')\<rparr>)) =
      \<lparr>userCode = lit ''<b>x</b>'', refactorPrompt = [], stylePrompt = [],
       improvedCode = Str [], explanation = Str [], language = Str (lit ''html''),
       dependencies = Arr [], isLoading = True, error = None\<rparr>"
proof -
  let ?st = "initial_state\<lparr>userCode := lit ''<b>x</b>'', improvedCode := Str (lit ''<i>old</i>''),
          explanation := Str (lit ''old''), dependencies := Arr [Str (lit ''npm install clsx'')],
          language := Str (lit ''html''), error := Some (lit ''old error'')\<rparr>"
  have g: "trim (userCode ?st) \<noteq> []"
    by (simp add: initial_state_def trim_def lit_def isWhiteSpace_def)
  show ?thesis
    using g submit_clears_previous_result [OF g, of TabPreview "lit ''dark''"]
    by (simp add: initial_state_def)
qed

text \<open>The state after the calls of the handler, applied in order, is the state it ends in.\<close>

lemma handleSubmit_effects_state:
  "foldl apply_effect st (handleSubmit_effects JSON_parse generateContent st) =
   handleSubmit JSON_parse generateContent st"
  by (cases st)
    (auto simp: handleSubmit_effects_def handleSubmit_def handleSubmit_begin_def
      handleSubmit_settle_def split: sum.splits)

text \<open>
  C5, as stated, fails at the non-empty source \<open>" "\<close>: submitted with no request pending,
  the handler makes one call, the \<open>setError\<close> of the guard; it invokes no completion call
  and never turns loading on.
\<close>

theorem submit_guard_counterexample:
  "userCode (initial_state\<lparr>userCode := lit '' ''\<rparr>) \<noteq> []
   \<and> \<not> isLoading (initial_state\<lparr>userCode := lit '' ''\<rparr>)
   \<and> snd (handleSubmit_begin (initial_state\<lparr>userCode := lit '' ''\<rparr>)) = None
   \<and> handleSubmit_effects (\<lambda>s. Inl (Error (lit ''Unexpected token''))) (\<lambda>p. Inr None)
         (initial_state\<lparr>userCode := lit '' ''\<rparr>) =
       [SetError (Some (lit ''Please provide some component code to refactor.''))]
   \<and> \<not> isLoading (handleSubmit (\<lambda>s. Inl (Error (lit ''Unexpected token''))) (\<lambda>p. Inr None)
         (initial_state\<lparr>userCode := lit '' ''\<rparr>))"
proof -
  have b: "trim (lit '' '') = []"
    by (simp add: trim_def lit_def isWhiteSpace_def)
  show ?thesis
    by (simp add: handleSubmit_begin_def handleSubmit_effects_def handleSubmit_def
        initial_state_def b lit_eq_Nil)
qed

text \<open>
  C5, amended. Submitting with empty source code is caught before any network call: the
  handler returns at the guard, the completion client is not invoked, and its only call is
  the \<open>setError\<close> of the validation message, so loading is not turned on; the output
  panel of a form that is not loading then shows that message. For all source code whose
  trimmed text is non-empty, a submit made while no request is pending turns loading on and
  invokes the completion client with the three inputs, and among all the calls of the
  handler, whatever the backend answers, \<open>setIsLoading(true)\<close> occurs exactly once and so
  does the awaited call.
\<close>

theorem submit_guard:
  "(userCode st = [] \<longrightarrow>
      snd (handleSubmit_begin st) = None
      \<and> handleSubmit_effects JSON_parse generateContent st =
        [SetError (Some (lit ''Please provide some component code to refactor.''))]
      \<and> handleSubmit JSON_parse generateContent st =
        st\<lparr>error := Some (lit ''Please provide some component code to refactor.'')\<rparr>
      \<and> (\<not> isLoading st \<longrightarrow>
          renderContent (handleSubmit JSON_parse generateContent st) activeTab theme =
            ErrorPanel (lit ''Please provide some component code to refactor.'')))
   \<and> (trim (userCode st) \<noteq> [] \<and> \<not> isLoading st \<longrightarrow>
      isLoading (fst (handleSubmit_begin st))
      \<and> snd (handleSubmit_begin st) = Some (userCode st, refactorPrompt st, stylePrompt st)
      \<and> count_list (handleSubmit_effects JSON_parse generateContent st) (SetIsLoading True) = 1
      \<and> count_list (handleSubmit_effects JSON_parse generateContent st)
          (AwaitImprovement (userCode st) (refactorPrompt st) (stylePrompt st)) = 1)"
proof -
  have rejected: "userCode st = [] \<longrightarrow>
      snd (handleSubmit_begin st) = None
      \<and> handleSubmit_effects JSON_parse generateContent st =
        [SetError (Some (lit ''Please provide some component code to refactor.''))]
      \<and> handleSubmit JSON_parse generateContent st =
        st\<lparr>error := Some (lit ''Please provide some component code to refactor.'')\<rparr>
      \<and> (\<not> isLoading st \<longrightarrow>
          renderContent (handleSubmit JSON_parse generateContent st) activeTab theme =
            ErrorPanel (lit ''Please provide some component code to refactor.''))"
    by (simp add: handleSubmit_begin_def handleSubmit_effects_def handleSubmit_def
        renderContent_def trim_Nil lit_eq_Nil)
  have pending: "trim (userCode st) \<noteq> [] \<longrightarrow>
      isLoading (fst (handleSubmit_begin st))
      \<and> snd (handleSubmit_begin st) = Some (userCode st, refactorPrompt st, stylePrompt st)"
    by (simp add: handleSubmit_begin_def)
  have once: "trim (userCode st) \<noteq> [] \<longrightarrow>
      count_list (handleSubmit_effects JSON_parse generateContent st) (SetIsLoading True) = 1
      \<and> count_list (handleSubmit_effects JSON_parse generateContent st)
          (AwaitImprovement (userCode st) (refactorPrompt st) (stylePrompt st)) = 1"
    by (auto simp: handleSubmit_effects_def split: sum.splits)
  from rejected pending once show ?thesis
    by blast
qed

theorem submit_guard_witness:
  "userCode initial_state = []
   \<and> \<not> isLoading initial_state
   \<and> handleSubmit_effects (\<lambda>s. Inl (Error (lit ''Unexpected token''))) (\<lambda>p. Inr None) initial_state =
       [SetError (Some (lit ''Please provide some component code to refactor.''))]
   \<and> renderContent
         (handleSubmit (\<lambda>s. Inl (Error (lit ''Unexpected token''))) (\<lambda>p. Inr None) initial_state)
         TabPreview (lit ''light'') =
       ErrorPanel (lit ''Please provide some component code to refactor.'')
   \<and> trim (userCode (initial_state\<lparr>userCode := lit ''<b>x</b>''\<rparr>)) \<noteq> []
   \<and> \<not> isLoading (initial_state\<lparr>userCode := lit ''<b>x</b>''\<rparr>)
   \<and> isLoading (fst (handleSubmit_begin (initial_state\<lparr>userCode := lit ''<b>x</b>''\<rparr>)))
   \<and> count_list
         (handleSubmit_effects (\<lambda>s. Inl (Error (lit ''Unexpected token''))) (\<lambda>p. Inr None)
           (initial_state\<lparr>userCode := lit ''<b>x</b>''\<rparr>))
         (SetIsLoading True) = 1"
proof -
  let ?P = "(\<lambda>s. Inl (Error (lit ''Unexpected token''))) :: json_parser"
  let ?G = "(\<lambda>p. Inr None) :: backend"
  let ?st = "initial_state\<lparr>userCode := lit ''<b>x</b>''\<rparr>"
  have e: "userCode initial_state = []" and i0: "\<not> isLoading initial_state"
    by (simp_all add: initial_state_def)
  have n: "trim (userCode ?st) \<noteq> []"
    by (simp add: trim_def lit_def isWhiteSpace_def)
  have i: "\<not> isLoading ?st"
    by (simp add: initial_state_def)
  from submit_guard [of initial_state ?P ?G TabPreview "lit ''light''"] e i0
  have first: "handleSubmit_effects ?P ?G initial_state =
       [SetError (Some (lit ''Please provide some component code to refactor.''))]"
    and shown: "renderContent (handleSubmit ?P ?G initial_state) TabPreview (lit ''light'') =
       ErrorPanel (lit ''Please provide some component code to refactor.'')"
    by blast+
  from submit_guard [of ?st ?P ?G] n i
  have second: "isLoading (fst (handleSubmit_begin ?st))"
    and once: "count_list (handleSubmit_effects ?P ?G ?st) (SetIsLoading True) = 1"
    by blast+
  from e i0 first shown n i second once show ?thesis
    by blast
qed

text \<open>
  C10. A source that is non-empty but consists of whitespace only is rejected as the empty
  source is: the handler stores the validation message, returns before calling the
  completion client, passes through no loading state, and ends in the state the empty
  source would have given (but for the source itself).
\<close>

theorem whitespace_only_rejected:
  assumes "userCode st \<noteq> []" and "list_all isWhiteSpace (userCode st)"
  shows "handleSubmit_begin st =
        (st\<lparr>error := Some (lit ''Please provide some component code to refactor.'')\<rparr>, None)
    \<and> handleSubmit JSON_parse generateContent st =
        st\<lparr>error := Some (lit ''Please provide some component code to refactor.'')\<rparr>
    \<and> snd (handleSubmit_begin (st\<lparr>userCode := []\<rparr>)) = snd (handleSubmit_begin st)
    \<and> handleSubmit JSON_parse generateContent st =
        (handleSubmit JSON_parse generateContent (st\<lparr>userCode := []\<rparr>))\<lparr>userCode := userCode st\<rparr>"
  using trim_whitespace_only [OF assms(2)]
  by (simp add: handleSubmit_begin_def handleSubmit_def trim_Nil)

theorem whitespace_only_rejected_witness:
  "userCode (initial_state\<lparr>userCode := [0x20, 0x0A, 0x09, 0x2003]\<rparr>) \<noteq> []
   \<and> list_all isWhiteSpace (userCode (initial_state\<lparr>userCode := [0x20, 0x0A, 0x09, 0x2003]\<rparr>))
   \<and> handleSubmit_begin (initial_state\<lparr>userCode := [0x20, 0x0A, 0x09, 0x2003]\<rparr>) =
        (initial_state\<lparr>userCode := [0x20, 0x0A, 0x09, 0x2003],
           error := Some (lit ''Please provide some component code to refactor.'')\<rparr>, None)"
proof -
  let ?st = "initial_state\<lparr>userCode := [0x20, 0x0A, 0x09, 0x2003]\<rparr>"
  have a: "userCode ?st \<noteq> []"
    by simp
  have b: "list_all isWhiteSpace (userCode ?st)"
    by (simp add: isWhiteSpace_def)
  from whitespace_only_rejected [OF a b, of "\<lambda>s. Inl (Error [])" "\<lambda>p. Inr None"]
  have "handleSubmit_begin ?st =
        (?st\<lparr>error := Some (lit ''Please provide some component code to refactor.'')\<rparr>, None)"
    by blast
  with a b show ?thesis
    by simp
qed

section \<open>The prompt\<close>

text \<open>
  C6. The prompt is a function of the three fields of the request alone, so equal requests
  give equal prompts. It consists of four fixed texts with the fields between them: the
  source code, verbatim, between a line of three backquotes and the next such line; then the
  refactor request and the style, each as typed, or, when empty, the placeholder "No
  specific request provided. Focus on general UI/UX improvements." and "No specific style
  provided. Use your best judgment for a modern, clean design." An empty field gives the
  prompt that the placeholder, typed as the field, would give.
\<close>

theorem fullPrompt_composition:
  \<open>(u = u' \<and> r = r' \<and> s = s' \<longrightarrow> fullPrompt u r s = fullPrompt u' r' s')
   \<and> (\<exists>a b c d. \<forall>code request style.
        fullPrompt code request style =
          a @
          lit (''      ```\<newline>'' @
               ''      '') @
          code @
          lit (''\<newline>'' @
               ''      ```\<newline>'') @
          b @
          (if request = [] then lit ''No specific request provided. Focus on general UI/UX improvements.'' else request) @
          c @
          (if style = [] then lit ''No specific style provided. Use your best judgment for a modern, clean design.'' else style) @
          d)
   \<and> (r = [] \<longrightarrow>
        fullPrompt u r s = fullPrompt u (lit ''No specific request provided. Focus on general UI/UX improvements.'') s)
   \<and> (s = [] \<longrightarrow>
        fullPrompt u r s = fullPrompt u r (lit ''No specific style provided. Use your best judgment for a modern, clean design.''))\<close>
proof -
  have fields: \<open>\<exists>a b c d. \<forall>code request style.
        fullPrompt code request style =
          a @
          lit (''      ```\<newline>'' @
               ''      '') @
          code @
          lit (''\<newline>'' @
               ''      ```\<newline>'') @
          b @
          (if request = [] then lit ''No specific request provided. Focus on general UI/UX improvements.'' else request) @
          c @
          (if style = [] then lit ''No specific style provided. Use your best judgment for a modern, clean design.'' else style) @
          d\<close>
    apply (rule exI [of _ \<open>lit (''\<newline>'' @
                    ''      The user has provided a frontend component. Your task is to identify its language, refactor it based on their requests, and follow all rules in the system instruction.\<newline>'' @
                    ''\<newline>'' @
                    ''      **User's Original Code:**\<newline>'')\<close>])
    apply (rule exI [of _ \<open>lit (''\<newline>'' @
                    ''      ---\<newline>'' @
                    ''\<newline>'' @
                    ''      **User's Refactor Request:** \<newline>'' @
                    ''      "'')\<close>])
    apply (rule exI [of _ \<open>lit (''"\<newline>'' @
                    ''\<newline>'' @
                    ''      **User's Target Style:**\<newline>'' @
                    ''      "'')\<close>])
    apply (rule exI [of _ \<open>lit (''"\<newline>'' @
                    ''\<newline>'' @
                    ''      ---\<newline>'' @
                    ''\<newline>'' @
                    ''      Based on all of the above, please identify the language, rewrite the code, provide an explanation for your changes, and list any required dependencies.\<newline>'' @
                    ''    '')\<close>])
    apply (simp only: fullPrompt_def lit_append append_assoc simp_thms)
    done
  have request: \<open>fullPrompt u [] s = fullPrompt u (lit ''No specific request provided. Focus on general UI/UX improvements.'') s\<close>
    by (simp add: fullPrompt_def lit_eq_Nil)
  have style: \<open>fullPrompt u r [] = fullPrompt u r (lit ''No specific style provided. Use your best judgment for a modern, clean design.'')\<close>
    by (simp add: fullPrompt_def lit_eq_Nil)
  from fields request style show ?thesis
    by blast
qed

theorem fullPrompt_composition_witness:
  \<open>fullPrompt (lit ''<b>x</b>'') [] [] =
     fullPrompt (lit ''<b>x</b>'') (lit ''No specific request provided. Focus on general UI/UX improvements.'') []
   \<and> fullPrompt (lit ''<b>x</b>'') [] [] =
     fullPrompt (lit ''<b>x</b>'') [] (lit ''No specific style provided. Use your best judgment for a modern, clean design.'')\<close>
  using fullPrompt_composition [of \<open>lit ''<b>x</b>''\<close> \<open>lit ''<b>x</b>''\<close> "[]" "[]" "[]" "[]"]
  by blast

section \<open>The preview documents\<close>

lemma html_is_not_tsx: "lit ''html'' \<noteq> lit ''tsx''"
  by (simp add: lit_eq_iff)

lemma empty_is_not_dark: "[] \<noteq> lit ''dark''"
  by (simp add: lit_def)

lemma iframeContent_theme:
  "theme \<noteq> lit ''dark'' \<Longrightarrow> iframeContent c l theme = iframeContent c l []"
  by (simp add: iframeContent_def empty_is_not_dark)

text \<open>
  The document for \<open>html\<close>, in full, and what its text outside the markup holds, for
  the dark theme and for any other.
\<close>

lemma html_document:
  \<open>iframeContent c (lit ''html'') theme =
     lit (''\<newline>'' @
          ''                <html '') @
     (if theme = lit ''dark'' then lit ''class="dark"'' else []) @
     lit (''>\<newline>'' @
          ''                    <head>\<newline>'' @
          ''                        <script src="https://cdn.tailwindcss.com"></script>\<newline>'' @
          ''                         <script>\<newline>'' @
          ''                            tailwind.config = { darkMode: 'class' }\<newline>'' @
          ''                        </script>\<newline>'' @
          ''                        <style>\<newline>'' @
          ''                           body { \<newline>'' @
          ''                                padding: 1rem; \<newline>'' @
          ''                                background-color: '') @
     (if theme = lit ''dark'' then lit ''#0f172a'' else lit ''#ffffff'') @
     lit (''; \<newline>'' @
          ''                                color: '') @
     (if theme = lit ''dark'' then lit ''#cbd5e1'' else lit ''#334155'') @
     lit ('';\<newline>'' @
          ''                                font-family: sans-serif;\<newline>'' @
          ''                            }\<newline>'' @
          ''                        </style>\<newline>'' @
          ''                    </head>\<newline>'') @
     lit (''                    <body>\<newline>'' @
          ''                        '') @
     c @
     lit (''\<newline>'' @
          ''                    </body>\<newline>'' @
          ''                </html>\<newline>'' @
          ''            '')\<close>
  by (simp only: iframeContent_def Let_def html_is_not_tsx if_False lit_append append_assoc)

lemma html_skeleton_dark:
  \<open>occurrences (iframeContent [] (lit ''html'') (lit ''dark'')) (lit ''src='') = 1
   \<and> occurrences (iframeContent [] (lit ''html'') (lit ''dark'')) (lit ''http'') = 1
   \<and> str_includes (iframeContent [] (lit ''html'') (lit ''dark''))
        (lit ''<script src="https://cdn.tailwindcss.com"></script>'')
   \<and> \<not> str_includes (iframeContent [] (lit ''html'') (lit ''dark'')) (lit ''unpkg.com'')
   \<and> \<not> str_includes (iframeContent [] (lit ''html'') (lit ''dark'')) (lit ''react'')
   \<and> \<not> str_includes (iframeContent [] (lit ''html'') (lit ''dark'')) (lit ''React'')
   \<and> \<not> str_includes (iframeContent [] (lit ''html'') (lit ''dark'')) (lit ''babel'')
   \<and> \<not> str_includes (iframeContent [] (lit ''html'') (lit ''dark'')) (lit ''RefactoredComponent'')
   \<and> \<not> str_includes (iframeContent [] (lit ''html'') (lit ''dark'')) (lit ''typeof'')
   \<and> \<not> str_includes (iframeContent [] (lit ''html'') (lit ''dark'')) (lit ''render'')
   \<and> \<not> str_includes (iframeContent [] (lit ''html'') (lit ''dark'')) (lit ''getElementById'')\<close>
  apply (simp add: iframeContent_def lit_eq_iff Let_def)
  apply (simp only: lit_append [symmetric] str_includes_lit occurrences_lit)
  apply (simp add: search_eval del: str_includes.simps occurrences.simps)
  done

lemma html_skeleton_light:
  \<open>occurrences (iframeContent [] (lit ''html'') []) (lit ''src='') = 1
   \<and> occurrences (iframeContent [] (lit ''html'') []) (lit ''http'') = 1
   \<and> str_includes (iframeContent [] (lit ''html'') [])
        (lit ''<script src="https://cdn.tailwindcss.com"></script>'')
   \<and> \<not> str_includes (iframeContent [] (lit ''html'') []) (lit ''unpkg.com'')
   \<and> \<not> str_includes (iframeContent [] (lit ''html'') []) (lit ''react'')
   \<and> \<not> str_includes (iframeContent [] (lit ''html'') []) (lit ''React'')
   \<and> \<not> str_includes (iframeContent [] (lit ''html'') []) (lit ''babel'')
   \<and> \<not> str_includes (iframeContent [] (lit ''html'') []) (lit ''RefactoredComponent'')
   \<and> \<not> str_includes (iframeContent [] (lit ''html'') []) (lit ''typeof'')
   \<and> \<not> str_includes (iframeContent [] (lit ''html'') []) (lit ''render'')
   \<and> \<not> str_includes (iframeContent [] (lit ''html'') []) (lit ''getElementById'')\<close>
  apply (simp add: iframeContent_def lit_eq_iff Let_def empty_is_not_dark)
  apply (simp only: lit_append [symmetric] str_includes_lit occurrences_lit)
  apply (simp add: search_eval del: str_includes.simps occurrences.simps)
  done

lemma html_skeleton:
  \<open>occurrences (iframeContent [] (lit ''html'') theme) (lit ''src='') = 1
   \<and> occurrences (iframeContent [] (lit ''html'') theme) (lit ''http'') = 1
   \<and> str_includes (iframeContent [] (lit ''html'') theme)
        (lit ''<script src="https://cdn.tailwindcss.com"></script>'')
   \<and> \<not> str_includes (iframeContent [] (lit ''html'') theme) (lit ''unpkg.com'')
   \<and> \<not> str_includes (iframeContent [] (lit ''html'') theme) (lit ''react'')
   \<and> \<not> str_includes (iframeContent [] (lit ''html'') theme) (lit ''React'')
   \<and> \<not> str_includes (iframeContent [] (lit ''html'') theme) (lit ''babel'')
   \<and> \<not> str_includes (iframeContent [] (lit ''html'') theme) (lit ''RefactoredComponent'')
   \<and> \<not> str_includes (iframeContent [] (lit ''html'') theme) (lit ''typeof'')
   \<and> \<not> str_includes (iframeContent [] (lit ''html'') theme) (lit ''render'')
   \<and> \<not> str_includes (iframeContent [] (lit ''html'') theme) (lit ''getElementById'')\<close>
proof (cases "theme = lit ''dark''")
  case True
  show ?thesis
    unfolding True by (rule html_skeleton_dark)
next
  case False
  show ?thesis
    unfolding iframeContent_theme [OF False] by (rule html_skeleton_light)
qed

text \<open>
  C8. For a result whose language is \<open>html\<close> the document of the preview is, character
  for character: the opening of the document, with the class \<open>dark\<close> for the dark theme;
  a head holding the script element that loads the utility-class styling engine from
  \<open>cdn.tailwindcss.com\<close>, the script that configures it, and the style of the body with the
  two colours of the theme; the opening of the body; the markup as it is; and the closing of
  the body and of the document. Outside the markup this text has one \<open>src\<close> attribute and
  one URL, those of the styling engine, and names neither the component runtime, nor its
  DOM binding, nor the source transformer, nor \<open>RefactoredComponent\<close>, nor a \<open>typeof\<close>
  test, nor a render or a lookup of the root node.
\<close>

theorem html_preview_document:
  \<open>iframeContent c (lit ''html'') theme =
     lit (''\<newline>'' @
          ''                <html '') @
     (if theme = lit ''dark'' then lit ''class="dark"'' else []) @
     lit (''>\<newline>'' @
          ''                    <head>\<newline>'' @
          ''                        <script src="https://cdn.tailwindcss.com"></script>\<newline>'' @
          ''                         <script>\<newline>'' @
          ''                            tailwind.config = { darkMode: 'class' }\<newline>'' @
          ''                        </script>\<newline>'' @
          ''                        <style>\<newline>'' @
          ''                           body { \<newline>'' @
          ''                                padding: 1rem; \<newline>'' @
          ''                                background-color: '') @
     (if theme = lit ''dark'' then lit ''#0f172a'' else lit ''#ffffff'') @
     lit (''; \<newline>'' @
          ''                                color: '') @
     (if theme = lit ''dark'' then lit ''#cbd5e1'' else lit ''#334155'') @
     lit ('';\<newline>'' @
          ''                                font-family: sans-serif;\<newline>'' @
          ''                            }\<newline>'' @
          ''                        </style>\<newline>'' @
          ''                    </head>\<newline>'') @
     lit (''                    <body>\<newline>'' @
          ''                        '') @
     c @
     lit (''\<newline>'' @
          ''                    </body>\<newline>'' @
          ''                </html>\<newline>'' @
          ''            '')
   \<and> occurrences (iframeContent [] (lit ''html'') theme) (lit ''src='') = 1
   \<and> occurrences (iframeContent [] (lit ''html'') theme) (lit ''http'') = 1
   \<and> str_includes (iframeContent [] (lit ''html'') theme)
        (lit ''<script src="https://cdn.tailwindcss.com"></script>'')
   \<and> \<not> str_includes (iframeContent [] (lit ''html'') theme) (lit ''unpkg.com'')
   \<and> \<not> str_includes (iframeContent [] (lit ''html'') theme) (lit ''react'')
   \<and> \<not> str_includes (iframeContent [] (lit ''html'') theme) (lit ''React'')
   \<and> \<not> str_includes (iframeContent [] (lit ''html'') theme) (lit ''babel'')
   \<and> \<not> str_includes (iframeContent [] (lit ''html'') theme) (lit ''RefactoredComponent'')
   \<and> \<not> str_includes (iframeContent [] (lit ''html'') theme) (lit ''typeof'')
   \<and> \<not> str_includes (iframeContent [] (lit ''html'') theme) (lit ''render'')
   \<and> \<not> str_includes (iframeContent [] (lit ''html'') theme) (lit ''getElementById'')\<close>
  using html_document [of c theme] html_skeleton [of theme] by blast

end
